theory Spec2Isabelle
  imports Main
begin

section \<open>Values of the pipeline\<close>

text \<open>
  The pipeline of \<^verbatim>\<open>data_processor.py\<close> moves decoded JSON around. A decoded JSON
  value is a Python object: \<^verbatim>\<open>None\<close>, a bool, a number, a str, a list or a dict. A dict
  keeps its insertion order, so an object is an association list. The numbers of a
  payload are the integers; floats in a payload are outside this development. A float
  arises only where pandas turns a column into \<^verbatim>\<open>float64\<close>: \<open>JFloat i\<close> is the float
  whose value is the integer \<open>i\<close>, and \<open>JNaN\<close> is the float \<^verbatim>\<open>nan\<close>. A character is a
  code point below 256.
\<close>

datatype json =
    JNull
  | JBool bool
  | JInt int
  | JFloat int
  | JNaN
  | JStr string
  | JList "json list"
  | JObj "(string \<times> json) list"

text \<open>The exceptions the modelled code can raise; all are subclasses of \<^verbatim>\<open>Exception\<close>.\<close>

datatype exn =
    ValueError string
  | ClientError
  | TimeoutError
  | JSONDecodeError
  | TypeError
  | KeyError
  | AttributeError
  | IndexError
  | NotImplementedError
  | OverflowError
  | SQLError

section \<open>ApiConfig\<close>

text \<open>Python's \<^verbatim>\<open>str.split(sep)\<close> for a non-empty separator, scanning left to right.\<close>

definition startswith :: "string \<Rightarrow> string \<Rightarrow> bool" where
  "startswith s p = (take (length p) s = p)"

definition endswith :: "string \<Rightarrow> string \<Rightarrow> bool" where
  "endswith s p = (length p \<le> length s \<and> drop (length s - length p) s = p)"

function split_acc :: "string \<Rightarrow> string \<Rightarrow> string \<Rightarrow> string list" where
  "split_acc sep acc [] = [rev acc]"
| "split_acc sep acc (c # cs) =
     (if sep \<noteq> [] \<and> startswith (c # cs) sep
      then rev acc # split_acc sep [] (drop (length sep) (c # cs))
      else split_acc sep (c # acc) cs)"
  by pat_completeness auto
termination
  by (relation "measure (\<lambda>(sep, acc, s). length s)") auto

definition split :: "string \<Rightarrow> string \<Rightarrow> string list" where
  "split s sep = split_acc sep [] s"

text \<open>\<^verbatim>\<open>str.lower()\<close> on code points below 256.\<close>

definition lower_char :: "char \<Rightarrow> char" where
  "lower_char c =
     (let n = (of_char c :: nat)
      in if (65 \<le> n \<and> n \<le> 90) \<or> (192 \<le> n \<and> n \<le> 222 \<and> n \<noteq> 215)
         then char_of (n + 32) else c)"

definition lower :: "string \<Rightarrow> string" where
  "lower s = map lower_char s"

text \<open>\<^verbatim>\<open>str.replace(old, new)\<close> for a one-character \<^verbatim>\<open>old\<close> and \<^verbatim>\<open>new\<close>.\<close>

definition replace :: "string \<Rightarrow> char \<Rightarrow> char \<Rightarrow> string" where
  "replace s old new = map (\<lambda>c. if c = old then new else c) s"

record ApiConfig =
  url :: string
  type :: string
  query :: "string option"
  params :: "(string \<times> string) list"
  headers :: "(string \<times> string) list"
  label :: string
  table_name :: string
  retry_attempts :: int
  timeout :: int

text \<open>
  \<^verbatim>\<open>x or y\<close> on an optional string: \<^verbatim>\<open>None\<close> and the empty string are both falsy.
\<close>

definition or_else :: "string option \<Rightarrow> string \<Rightarrow> string" where
  "or_else x d = (case x of None \<Rightarrow> d | Some s \<Rightarrow> if s = [] then d else s)"

definition or_empty :: "(string \<times> string) list option \<Rightarrow> (string \<times> string) list" where
  "or_empty x = (case x of None \<Rightarrow> [] | Some d \<Rightarrow> d)"

text \<open>
  \<^verbatim>\<open>ApiConfig.__init__\<close>: the attributes are assigned first, then the three checks run
  in order; a check that fails raises \<^verbatim>\<open>ValueError\<close>, and no object is produced.
\<close>

definition ApiConfig_init ::
  "string \<Rightarrow> string \<Rightarrow> string option \<Rightarrow> string option \<Rightarrow> (string \<times> string) list option \<Rightarrow>
   (string \<times> string) list option \<Rightarrow> string option \<Rightarrow> int \<Rightarrow> int \<Rightarrow> exn + ApiConfig" where
  "ApiConfig_init url' api_type query' label' params' headers' table_name' retry_attempts' timeout' =
     (let lbl = or_else label' (hd (split (last (split url' ''//'')) ''/''));
          self = \<lparr> url = url', type = api_type, query = query',
                   params = or_empty params', headers = or_empty headers',
                   label = lbl,
                   table_name = or_else table_name'
                     (replace (replace (lower lbl) (CHR ''.'') (CHR ''_'')) (CHR ''-'') (CHR ''_'')),
                   retry_attempts = retry_attempts', timeout = timeout' \<rparr>
      in if url' = [] then Inl (ValueError ''URL is required for ApiConfig'')
         else if api_type \<notin> set [''REST'', ''GraphQL'']
           then Inl (ValueError (''api_type must be '' @ [CHR 0x27] @ ''REST'' @ [CHR 0x27] @
                  '' or '' @ [CHR 0x27] @ ''GraphQL'' @ [CHR 0x27]))
         else if api_type = ''GraphQL'' \<and> (query' = None \<or> query' = Some [])
           then Inl (ValueError ''Query is required for GraphQL API'')
         else Inr self)"

section \<open>Fetcher\<close>

text \<open>
  The HTTP boundary. A request is what \<^verbatim>\<open>session.get\<close> or \<^verbatim>\<open>session.post\<close> is called
  with; the exchange either raises or gives a response with a status, the result of
  reading the body as text (\<^verbatim>\<open>response.text()\<close>, which can raise) and the result of
  decoding the body as JSON (\<^verbatim>\<open>response.json()\<close>, which can raise). A session answers the
  \<open>n\<close>-th request (counted from 0) that one call of \<^verbatim>\<open>fetch_data\<close> issues.
\<close>

datatype request =
    GET string "(string \<times> string) list" "(string \<times> string) list" int
  | POST string json "(string \<times> string) list" int

datatype http_reply =
    Raises exn
  | Response int "exn + string" "exn + json"

type_synonym session = "request \<Rightarrow> nat \<Rightarrow> http_reply"

text \<open>
  What a fetch returns: \<^verbatim>\<open>Some (api, data)\<close> is the tuple \<^verbatim>\<open>(api, data)\<close>, where the
  data \<open>JNull\<close> is Python's \<^verbatim>\<open>None\<close>; \<^verbatim>\<open>None\<close> is the value of a function body
  that ends without a \<^verbatim>\<open>return\<close>.
\<close>

type_synonym outcome = "(ApiConfig \<times> json) option"

definition handle_response :: "ApiConfig \<Rightarrow> http_reply \<Rightarrow> exn + outcome" where
  "handle_response api reply =
     (case reply of
        Raises e \<Rightarrow> Inl e
      | Response status error_text decoded \<Rightarrow>
          if status \<noteq> 200 then
            (case error_text of Inl e \<Rightarrow> Inl e | Inr logged \<Rightarrow> Inr (Some (api, JNull)))
          else (case decoded of Inl e \<Rightarrow> Inl e | Inr data \<Rightarrow> Inr (Some (api, data))))"

text \<open>
  \<^verbatim>\<open>_do_fetch\<close>, given the number \<open>n\<close> of requests issued so far; it returns its result
  and the new number of requests.
\<close>

definition do_fetch :: "session \<Rightarrow> ApiConfig \<Rightarrow> nat \<Rightarrow> (exn + outcome) \<times> nat" where
  "do_fetch session api n =
     (if type api = ''REST'' then
        (handle_response api
           (session (GET (url api) (params api) (headers api) (timeout api)) n), n + 1)
      else if type api = ''GraphQL'' then
        (handle_response api
           (session (POST (url api)
              (JObj [(''query'', case query api of None \<Rightarrow> JNull | Some q \<Rightarrow> JStr q)])
              (headers api) (timeout api)) n), n + 1)
      else (Inr None, n))"

text \<open>
  The body of \<^verbatim>\<open>fetch_data\<close>, without its decorator: both branches on the rate limiter
  call \<^verbatim>\<open>_do_fetch\<close>, and \<^verbatim>\<open>except Exception\<close> turns every exception into
  \<^verbatim>\<open>(api, None)\<close>.
\<close>

definition fetch_data_body :: "session \<Rightarrow> ApiConfig \<Rightarrow> nat \<Rightarrow> (exn + outcome) \<times> nat" where
  "fetch_data_body session api n =
     (case do_fetch session api n of
        (Inl e, n') \<Rightarrow> (Inr (Some (api, JNull)), n')
      | (Inr r, n') \<Rightarrow> (Inr r, n'))"

text \<open>
  The decorator \<^verbatim>\<open>backoff.on_exception(backoff.expo, exceptions, max_tries, jitter)\<close> of
  the \<^verbatim>\<open>backoff\<close> library, as its documentation describes it: the target is called;
  a normal return is passed on; an exception outside \<^verbatim>\<open>exceptions\<close> propagates; one of
  \<^verbatim>\<open>exceptions\<close> is re-raised when the number of tries has reached \<^verbatim>\<open>max_tries\<close>, and
  otherwise the wrapper sleeps and calls the target again. The sleep before retry
  \<open>k\<close> (from 0) is drawn by \<^verbatim>\<open>full_jitter\<close> uniformly from \<open>[0, 2 ^ k]\<close>; the model
  records the bounds \<open>2 ^ k\<close> of the sleeps it performs. The library compares
  \<^verbatim>\<open>tries == max_tries\<close>; with tries counted up from 1 and \<^verbatim>\<open>max_tries\<close> at least 1
  that is the test below.
\<close>

function on_exception ::
  "nat \<Rightarrow> (exn \<Rightarrow> bool) \<Rightarrow> (nat \<Rightarrow> (exn + 'a) \<times> nat) \<Rightarrow> nat \<Rightarrow> nat \<Rightarrow> nat list \<Rightarrow>
   (exn + 'a) \<times> nat \<times> nat list" where
  "on_exception max_tries exceptions target tries n sleeps =
     (case target n of
        (Inr ret, n') \<Rightarrow> (Inr ret, n', sleeps)
      | (Inl e, n') \<Rightarrow>
          if \<not> exceptions e then (Inl e, n', sleeps)
          else if max_tries \<le> tries + 1 then (Inl e, n', sleeps)
          else on_exception max_tries exceptions target (tries + 1) n' (sleeps @ [2 ^ tries]))"
  by pat_completeness auto
termination
  by (relation "measure (\<lambda>(max_tries, exceptions, target, tries, n, sleeps). max_tries - tries)") auto

text \<open>
  \<^verbatim>\<open>fetch_data\<close> as decorated in the source: \<^verbatim>\<open>max_tries=3\<close>, retrying on
  \<^verbatim>\<open>aiohttp.ClientError\<close> and \<^verbatim>\<open>asyncio.TimeoutError\<close>. The result is what the call
  returns or raises, the number of requests it issued, and the bounds of its sleeps.
\<close>

definition fetch_data :: "session \<Rightarrow> ApiConfig \<Rightarrow> (exn + outcome) \<times> nat \<times> nat list" where
  "fetch_data session api =
     on_exception 3 (\<lambda>e. e = ClientError \<or> e = TimeoutError) (fetch_data_body session api) 0 0 []"

text \<open>Sessions and sources used as concrete inputs.\<close>

definition always_fails :: session where
  "always_fails req n = Raises ClientError"

definition error_then_ok :: session where
  "error_then_ok req n =
     (if n = 0 then Response 500 (Inr ''Internal Server Error'') (Inl JSONDecodeError)
      else Response 200 (Inr ''[1]'') (Inr (JList [JInt 1])))"

definition posts_api :: ApiConfig where
  "posts_api = \<lparr> url = ''https://jsonplaceholder.typicode.com/posts'', type = ''REST'',
       query = None, params = [], headers = [], label = ''posts'', table_name = ''posts'',
       retry_attempts = 3, timeout = 30 \<rparr>"

section \<open>Python operations on decoded JSON\<close>

text \<open>Truthiness, as \<^verbatim>\<open>if x:\<close> and \<^verbatim>\<open>not x\<close> test it.\<close>

fun truthy :: "json \<Rightarrow> bool" where
  "truthy JNull = False"
| "truthy (JBool b) = b"
| "truthy (JInt i) = (i \<noteq> 0)"
| "truthy (JFloat i) = (i \<noteq> 0)"
| "truthy JNaN = True"
| "truthy (JStr s) = (s \<noteq> [])"
| "truthy (JList xs) = (xs \<noteq> [])"
| "truthy (JObj kvs) = (kvs \<noteq> [])"

definition bind_exn :: "exn + 'a \<Rightarrow> ('a \<Rightarrow> exn + 'b) \<Rightarrow> exn + 'b" where
  "bind_exn m f = (case m of Inl e \<Rightarrow> Inl e | Inr x \<Rightarrow> f x)"

text \<open>\<^verbatim>\<open>p in s\<close> for two strings: \<open>p\<close> occurs in \<open>s\<close>.\<close>

fun find_sub :: "string \<Rightarrow> string \<Rightarrow> bool" where
  "find_sub p [] = (p = [])"
| "find_sub p (c # cs) = (startswith (c # cs) p \<or> find_sub p cs)"

text \<open>
  \<^verbatim>\<open>key in x\<close> for a string \<^verbatim>\<open>key\<close>: a key of a dict, an element of a list, a substring
  of a str; any other operand raises \<^verbatim>\<open>TypeError\<close>.
\<close>

fun contains :: "string \<Rightarrow> json \<Rightarrow> exn + bool" where
  "contains key (JObj kvs) = Inr (key \<in> set (map fst kvs))"
| "contains key (JList xs) = Inr (JStr key \<in> set xs)"
| "contains key (JStr s) = Inr (find_sub key s)"
| "contains key v = Inl TypeError"

text \<open>\<^verbatim>\<open>x.get(key, {})\<close>: only a dict has the method.\<close>

fun get_default :: "json \<Rightarrow> string \<Rightarrow> exn + json" where
  "get_default (JObj kvs) key = Inr (case map_of kvs key of None \<Rightarrow> JObj [] | Some v \<Rightarrow> v)"
| "get_default v key = Inl AttributeError"

text \<open>
  \<^verbatim>\<open>xs[i]\<close> on a sequence of length \<open>len\<close>: the positions \<open>0\<close> to \<open>len - 1\<close> are read
  directly, the positions \<open>- len\<close> to \<open>- 1\<close> are read at \<open>len + i\<close>, and every other
  position raises \<^verbatim>\<open>IndexError\<close>.
\<close>

definition index :: "'a list \<Rightarrow> int \<Rightarrow> exn + 'a" where
  "index xs i =
     (if 0 \<le> i \<and> i < int (length xs) then Inr (xs ! nat i)
      else if i < 0 \<and> - int (length xs) \<le> i then Inr (xs ! nat (int (length xs) + i))
      else Inl IndexError)"

text \<open>
  \<^verbatim>\<open>x[k]\<close>. A dict is looked up by key (its keys are strings; a list or dict as key is
  unhashable); a list or str is indexed by an int, and a bool is an int.
\<close>

fun getitem :: "json \<Rightarrow> json \<Rightarrow> exn + json" where
  "getitem (JObj kvs) (JStr k) = (case map_of kvs k of None \<Rightarrow> Inl KeyError | Some v \<Rightarrow> Inr v)"
| "getitem (JObj kvs) (JList ys) = Inl TypeError"
| "getitem (JObj kvs) (JObj ys) = Inl TypeError"
| "getitem (JObj kvs) k = Inl KeyError"
| "getitem (JList xs) (JInt i) = index xs i"
| "getitem (JList xs) (JBool b) = index xs (if b then 1 else 0)"
| "getitem (JStr s) (JInt i) = map_sum id (\<lambda>c. JStr [c]) (index s i)"
| "getitem (JStr s) (JBool b) = map_sum id (\<lambda>c. JStr [c]) (index s (if b then 1 else 0))"
| "getitem v k = Inl TypeError"

text \<open>\<^verbatim>\<open>next(iter(x), None)\<close>: the first key, element or character, or \<^verbatim>\<open>None\<close>.\<close>

fun first_of :: "json \<Rightarrow> exn + json" where
  "first_of (JObj kvs) = Inr (case kvs of [] \<Rightarrow> JNull | (k, v) # rest \<Rightarrow> JStr k)"
| "first_of (JList xs) = Inr (case xs of [] \<Rightarrow> JNull | x # rest \<Rightarrow> x)"
| "first_of (JStr s) = Inr (case s of [] \<Rightarrow> JNull | c # rest \<Rightarrow> JStr [c])"
| "first_of v = Inl TypeError"

fun is_dict :: "json \<Rightarrow> bool" where
  "is_dict (JObj kvs) = True"
| "is_dict v = False"

fun is_list :: "json \<Rightarrow> bool" where
  "is_list (JList xs) = True"
| "is_list v = False"

text \<open>A dict as an association list: \<^verbatim>\<open>d[k] = v\<close> keeps the place of a key already there.\<close>

type_synonym dict = "(string \<times> json) list"

fun dict_set :: "dict \<Rightarrow> string \<Rightarrow> json \<Rightarrow> dict" where
  "dict_set [] k v = [(k, v)]"
| "dict_set ((k', v') # d) k v = (if k' = k then (k, v) # d else (k', v') # dict_set d k v)"

text \<open>\<^verbatim>\<open>{**a, **b}\<close>.\<close>

definition dict_merge :: "dict \<Rightarrow> dict \<Rightarrow> dict" where
  "dict_merge a b = fold (\<lambda>(k, v) d. dict_set d k v) b a"

section \<open>Normalizer\<close>

text \<open>
  \<^verbatim>\<open>pandas.json_normalize\<close>, \<^verbatim>\<open>pandas.DataFrame\<close>, \<^verbatim>\<open>DataFrame.where\<close> and
  \<^verbatim>\<open>DataFrame.to_dict\<close> belong to the pandas library; they are modelled from its
  documentation and from its functions \<^verbatim>\<open>_simple_json_normalize\<close> and
  \<^verbatim>\<open>lib.maybe_convert_objects\<close>. A dict is flattened: the keys whose values are not dicts
  come first, then the nested dicts, each leaf under the path of its keys joined by a
  dot. An element of the list that is not a dict raises \<^verbatim>\<open>TypeError\<close>.
\<close>

fun normalise_json :: "json \<Rightarrow> string \<Rightarrow> dict \<Rightarrow> dict"
  and normalise_items :: "dict \<Rightarrow> string \<Rightarrow> dict \<Rightarrow> dict" where
  "normalise_json (JObj kvs) key_string normalized_dict = normalise_items kvs key_string normalized_dict"
| "normalise_json data key_string normalized_dict = dict_set normalized_dict key_string data"
| "normalise_items [] key_string normalized_dict = normalized_dict"
| "normalise_items ((key, val) # rest) key_string normalized_dict =
     normalise_items rest key_string
       (normalise_json val (if key_string = [] then key else key_string @ ''.'' @ key)
          normalized_dict)"

definition normalise_json_ordered :: "dict \<Rightarrow> dict" where
  "normalise_json_ordered data =
     dict_merge (filter (\<lambda>(k, v). \<not> is_dict v) data)
       (normalise_items (filter (\<lambda>(k, v). is_dict v) data) [] [])"

fun simple_json_normalize :: "json \<Rightarrow> exn + dict" where
  "simple_json_normalize (JObj kvs) = Inr (normalise_json_ordered kvs)"
| "simple_json_normalize v = Inl TypeError"

text \<open>
  The conversion of an integer to a \<^verbatim>\<open>float64\<close>: the integer is rounded to 53
  significant bits, to the nearest value and to the even one of two nearest; a result of
  \<open>2 ^ 1024\<close> or more is an overflow.
\<close>

function bit_length :: "nat \<Rightarrow> nat" where
  "bit_length n = (if n = 0 then 0 else Suc (bit_length (n div 2)))"
  by pat_completeness auto
termination
  by (relation "measure id") auto

declare bit_length.simps [simp del]

definition round_nat :: "nat \<Rightarrow> nat" where
  "round_nat n =
     (if bit_length n \<le> 53 then n
      else let s = bit_length n - 53; q = n div 2 ^ s; r = n mod 2 ^ s; h = 2 ^ (s - 1)
           in (if h < r \<or> (r = h \<and> odd q) then q + 1 else q) * 2 ^ s)"

definition round_int :: "int \<Rightarrow> int" where
  "round_int i = (if i < 0 then - int (round_nat (nat (- i))) else int (round_nat (nat i)))"

definition overflows :: "int \<Rightarrow> bool" where
  "overflows i = (2 ^ 1024 \<le> \<bar>round_int i\<bar>)"

text \<open>
  The inference of the type of a column from its cells, in their order. A missing cell
  is \<^verbatim>\<open>nan\<close>. Every integer is converted to a float on the way, which can overflow; an
  integer outside the 64-bit ranges, or a negative one beside one above \<open>2 ^ 63 - 1\<close>,
  makes the column one of objects if no \<^verbatim>\<open>None\<close> came before it; so does a string, a
  list or a dict. The scan stops at the first cell that makes the column one of objects.
\<close>

record seen =
  seen_null :: bool
  seen_nan :: bool
  seen_int :: bool
  seen_float :: bool
  seen_bool :: bool
  seen_uint :: bool
  seen_sint :: bool
  seen_object :: bool

definition seen_nothing :: seen where
  "seen_nothing = \<lparr> seen_null = False, seen_nan = False, seen_int = False, seen_float = False, seen_bool = False,
       seen_uint = False, seen_sint = False, seen_object = False \<rparr>"

definition saw_int :: "seen \<Rightarrow> int \<Rightarrow> seen" where
  "saw_int s v = s\<lparr>seen_uint := seen_uint s \<or> (2 ^ 63 \<le> v \<and> v < 2 ^ 64),
                   seen_sint := seen_sint s \<or> (- (2 ^ 63) \<le> v \<and> v < 0)\<rparr>"

fun scan_cells :: "seen \<Rightarrow> json list \<Rightarrow> exn + seen" where
  "scan_cells s [] = Inr s"
| "scan_cells s (JNull # vs) = scan_cells (s\<lparr>seen_null := True\<rparr>) vs"
| "scan_cells s (JNaN # vs) = scan_cells (s\<lparr>seen_nan := True\<rparr>) vs"
| "scan_cells s (JBool b # vs) = scan_cells (s\<lparr>seen_bool := True\<rparr>) vs"
| "scan_cells s (JFloat x # vs) = scan_cells (s\<lparr>seen_float := True\<rparr>) vs"
| "scan_cells s (JInt v # vs) =
     (if overflows v then Inl OverflowError
      else if seen_null s then scan_cells (s\<lparr>seen_int := True\<rparr>) vs
      else if (seen_uint (saw_int s v) \<and> seen_sint (saw_int s v)) \<or> 2 ^ 64 \<le> v \<or> v < - (2 ^ 63)
        then Inr ((saw_int s v)\<lparr>seen_int := True, seen_object := True\<rparr>)
      else scan_cells ((saw_int s v)\<lparr>seen_int := True\<rparr>) vs)"
| "scan_cells s (v # vs) = Inr (s\<lparr>seen_object := True\<rparr>)"

text \<open>
  The column becomes \<^verbatim>\<open>float64\<close> when it holds numbers only and one of them is a float,
  or when it holds a \<^verbatim>\<open>None\<close> or a \<^verbatim>\<open>nan\<close> beside nothing but numbers and it is not
  all \<^verbatim>\<open>None\<close>. Every other column keeps its cells.
\<close>

definition is_float64 :: "seen \<Rightarrow> bool" where
  "is_float64 s =
     (\<not> seen_object s \<and> \<not> seen_bool s \<and>
      (if seen_null s \<or> seen_nan s then seen_float s \<or> seen_int s \<or> seen_nan s else seen_float s))"

fun to_float :: "json \<Rightarrow> json" where
  "to_float (JInt i) = JFloat (round_int i)"
| "to_float JNull = JNaN"
| "to_float v = v"

text \<open>
  A data frame: its column names, for each column whether it is \<^verbatim>\<open>float64\<close>, and its
  rows. \<^verbatim>\<open>DataFrame(records)\<close> takes the columns from the keys of the records, in the
  order in which they first appear; a record without the key of a column has \<^verbatim>\<open>nan\<close>
  there.
\<close>

type_synonym dataframe = "string list \<times> bool list \<times> json list list"

definition add_key :: "string \<Rightarrow> string list \<Rightarrow> string list" where
  "add_key k cols = (if k \<in> set cols then cols else cols @ [k])"

definition union_keys :: "dict list \<Rightarrow> string list" where
  "union_keys records = fold (\<lambda>r cols. fold add_key (map fst r) cols) records []"

definition cell_of :: "dict \<Rightarrow> string \<Rightarrow> json" where
  "cell_of r c = (case map_of r c of None \<Rightarrow> JNaN | Some v \<Rightarrow> v)"

fun sequence_exn :: "(exn + 'a) list \<Rightarrow> exn + 'a list" where
  "sequence_exn [] = Inr []"
| "sequence_exn (m # ms) =
     bind_exn m (\<lambda>x. bind_exn (sequence_exn ms) (\<lambda>xs. Inr (x # xs)))"

definition DataFrame :: "dict list \<Rightarrow> exn + dataframe" where
  "DataFrame records =
     (let cols = union_keys records
      in bind_exn
           (sequence_exn (map (\<lambda>c. scan_cells seen_nothing (map (\<lambda>r. cell_of r c) records)) cols))
           (\<lambda>seens.
              let floats = map is_float64 seens
              in Inr (cols, floats,
                      map (\<lambda>r. map (\<lambda>(c, f). if f then to_float (cell_of r c) else cell_of r c)
                                 (zip cols floats))
                        records)))"

definition json_normalize :: "json list \<Rightarrow> exn + dataframe" where
  "json_normalize data =
     bind_exn (sequence_exn (map simple_json_normalize data)) DataFrame"

text \<open>
  \<^verbatim>\<open>df.where(pd.notnull(df), None)\<close>: in a column of objects a \<^verbatim>\<open>nan\<close> becomes \<^verbatim>\<open>None\<close>;
  a \<^verbatim>\<open>float64\<close> column cannot hold \<^verbatim>\<open>None\<close> and keeps its \<^verbatim>\<open>nan\<close>.
\<close>

definition where_notnull :: "dataframe \<Rightarrow> dataframe" where
  "where_notnull df =
     (case df of (cols, floats, rows) \<Rightarrow>
        (cols, floats,
         map (\<lambda>r. map (\<lambda>(v, f). if \<not> f \<and> v = JNaN then JNull else v) (zip r floats)) rows))"

definition to_dict_records :: "dataframe \<Rightarrow> dict list" where
  "to_dict_records df = (case df of (cols, floats, rows) \<Rightarrow> map (\<lambda>r. zip cols r) rows)"

text \<open>The unwrapping of a GraphQL response in \<^verbatim>\<open>transform_data\<close>.\<close>

definition unwrap_graphql :: "json \<Rightarrow> exn + json" where
  "unwrap_graphql raw_data =
     bind_exn (contains ''data'' raw_data) (\<lambda>has_data.
       if \<not> has_data then Inr raw_data
       else bind_exn (bind_exn (get_default raw_data ''data'') (contains ''characters''))
         (\<lambda>has_characters.
           if has_characters then
             bind_exn (getitem raw_data (JStr ''data'')) (\<lambda>d.
             bind_exn (getitem d (JStr ''characters'')) (\<lambda>c. getitem c (JStr ''results'')))
           else bind_exn (bind_exn (get_default raw_data ''data'') (contains ''countries''))
             (\<lambda>has_countries.
               if has_countries then
                 bind_exn (getitem raw_data (JStr ''data'')) (\<lambda>d. getitem d (JStr ''countries''))
               else
                 bind_exn (bind_exn (getitem raw_data (JStr ''data'')) first_of) (\<lambda>first_key.
                   if truthy first_key then
                     bind_exn (getitem raw_data (JStr ''data'')) (\<lambda>d. getitem d first_key)
                   else Inr raw_data))))"

text \<open>
  The \<^verbatim>\<open>for key in ['results', 'items', 'data']\<close> loop with its \<^verbatim>\<open>else\<close>: the first of
  the keys that holds a list gives the list; without one the dict is the single item.
\<close>

fun extract_list :: "dict \<Rightarrow> string list \<Rightarrow> json list" where
  "extract_list raw_data [] = [JObj raw_data]"
| "extract_list raw_data (key # keys) =
     (case map_of raw_data key of
        Some (JList xs) \<Rightarrow> xs
      | _ \<Rightarrow> extract_list raw_data keys)"

definition transform_try :: "json \<Rightarrow> ApiConfig \<Rightarrow> exn + dict list" where
  "transform_try raw_data api_config =
     bind_exn (if type api_config = ''GraphQL'' then unwrap_graphql raw_data else Inr raw_data)
       (\<lambda>raw_data.
          case raw_data of
            JObj kvs \<Rightarrow>
              bind_exn (json_normalize (extract_list kvs [''results'', ''items'', ''data'']))
                (\<lambda>df. Inr (to_dict_records (where_notnull df)))
          | JList xs \<Rightarrow>
              bind_exn (json_normalize xs) (\<lambda>df. Inr (to_dict_records (where_notnull df)))
          | _ \<Rightarrow> Inr [])"

text \<open>\<^verbatim>\<open>transform_data\<close>: any exception of the \<^verbatim>\<open>try\<close> block gives the empty list.\<close>

definition transform_data :: "json \<Rightarrow> ApiConfig \<Rightarrow> dict list" where
  "transform_data raw_data api_config =
     (if \<not> truthy raw_data then []
      else case transform_try raw_data api_config of Inl e \<Rightarrow> [] | Inr records \<Rightarrow> records)"

definition countries_api :: ApiConfig where
  "countries_api = \<lparr> url = ''https://countries.trevorblades.com/graphql'', type = ''GraphQL'',
       query = Some ''query { countries { name capital currency } }'', params = [], headers = [],
       label = ''countries'', table_name = ''countries'', retry_attempts = 3, timeout = 30 \<rparr>"




section \<open>Properties\<close>

subsection \<open>Construction of a source\<close>

text \<open>
  C5. Constructing an \<^verbatim>\<open>ApiConfig\<close> raises \<^verbatim>\<open>ValueError\<close>, and so produces no value, when
  the url is the empty string, when the kind is a string other than \<^verbatim>\<open>REST\<close> and
  \<^verbatim>\<open>GraphQL\<close>, and when the kind is \<^verbatim>\<open>GraphQL\<close> and the query is absent or empty.
\<close>

theorem ApiConfig_init_rejects:
  assumes "u = [] \<or> (t \<noteq> ''REST'' \<and> t \<noteq> ''GraphQL'') \<or>
           (t = ''GraphQL'' \<and> (q = None \<or> q = Some []))"
  shows "\<exists>msg. ApiConfig_init u t q l p h tn r tm = Inl (ValueError msg)"
  using assms by (auto simp: ApiConfig_init_def Let_def)

theorem ApiConfig_init_rejects_witness:
  "(\<exists>msg. ApiConfig_init [] ''REST'' None None None None None 3 30 = Inl (ValueError msg)) \<and>
   (\<exists>msg. ApiConfig_init ''https://a.example/x'' ''SOAP'' None None None None None 3 30
           = Inl (ValueError msg)) \<and>
   (\<exists>msg. ApiConfig_init ''https://a.example/x'' ''GraphQL'' (Some []) None None None None 3 30
           = Inl (ValueError msg)) \<and>
   (\<exists>msg. ApiConfig_init ''https://a.example/x'' ''GraphQL'' None None None None None 3 30
           = Inl (ValueError msg))"
  using ApiConfig_init_rejects [of "[]" "''REST''" None None None None None 3 30]
        ApiConfig_init_rejects [of "''https://a.example/x''" "''SOAP''" None None None None None 3 30]
        ApiConfig_init_rejects [of "''https://a.example/x''" "''GraphQL''" "Some []" None None None None 3 30]
        ApiConfig_init_rejects [of "''https://a.example/x''" "''GraphQL''" None None None None None 3 30]
  by simp


subsection \<open>Fetching\<close>

lemma do_fetch_validated:
  assumes "type api = ''REST'' \<or> type api = ''GraphQL''"
  shows "fst (do_fetch session api n) \<noteq> Inr None" and "snd (do_fetch session api n) = n + 1"
  using assms
  by (auto simp: do_fetch_def handle_response_def split: http_reply.splits sum.splits)

lemma fetch_data_body_returns:
  "\<exists>r. fetch_data_body session api n = (Inr r, snd (do_fetch session api n))"
  by (cases "do_fetch session api n"; cases "fst (do_fetch session api n)")
     (auto simp: fetch_data_body_def)

lemma fetch_data_once:
  "fetch_data session api = (fst (fetch_data_body session api 0), snd (do_fetch session api 0), [])"
proof -
  obtain r where r: "fetch_data_body session api 0 = (Inr r, snd (do_fetch session api 0))"
    using fetch_data_body_returns by blast
  then show ?thesis
    by (simp add: fetch_data_def)
qed

lemma ApiConfig_init_type:
  assumes "ApiConfig_init u t q l p h tn r tm = Inr api"
  shows "type api = ''REST'' \<or> type api = ''GraphQL''"
  using assms by (auto simp: ApiConfig_init_def Let_def split: if_splits)

text \<open>
  C10. For a source that passed the checks of its constructor, \<^verbatim>\<open>_do_fetch\<close> takes one of
  its two branches: it issues one request and does not end without a \<^verbatim>\<open>return\<close>. A
  fetch of such a source returns a pair of the source and a payload.
\<close>

theorem validated_fetch_yields_pair:
  assumes "ApiConfig_init u t q l p h tn r tm = Inr api"
  shows "fst (do_fetch session api n) \<noteq> Inr None \<and> snd (do_fetch session api n) = n + 1 \<and>
         (\<exists>payload. fst (fetch_data session api) = Inr (Some (api, payload)))"
proof -
  have ty: "type api = ''REST'' \<or> type api = ''GraphQL''"
    using assms by (rule ApiConfig_init_type)
  have body: "\<exists>payload. fst (fetch_data_body session api 0) = Inr (Some (api, payload))"
    using ty
    by (auto simp: fetch_data_body_def do_fetch_def handle_response_def
             split: http_reply.splits sum.splits)
  show ?thesis
    using do_fetch_validated [OF ty] body by (simp add: fetch_data_once)
qed

theorem validated_fetch_yields_pair_witness:
  "ApiConfig_init ''https://jsonplaceholder.typicode.com/posts'' ''REST'' None (Some ''posts'')
     None None None 3 30 = Inr posts_api \<and>
   fst (do_fetch error_then_ok posts_api 0) \<noteq> Inr None \<and>
   snd (do_fetch error_then_ok posts_api 0) = 1 \<and>
   fst (fetch_data error_then_ok posts_api) = Inr (Some (posts_api, JNull))"
proof -
  have h: "ApiConfig_init ''https://jsonplaceholder.typicode.com/posts'' ''REST'' None
             (Some ''posts'') None None None 3 30 = Inr posts_api"
    by (simp add: ApiConfig_init_def Let_def or_else_def or_empty_def posts_api_def lower_def
          lower_char_def replace_def)
  have v: "fst (fetch_data error_then_ok posts_api) = Inr (Some (posts_api, JNull))"
    by (simp add: fetch_data_once fetch_data_body_def do_fetch_def handle_response_def
          error_then_ok_def posts_api_def)
  show ?thesis
    using h v validated_fetch_yields_pair [OF h, of error_then_ok 0] by simp
qed

text \<open>
  C3. The claim is that a source whose transport fails on every attempt is requested
  \<^verbatim>\<open>retry_attempts\<close> times, with backoff between the attempts. In the code the body of
  \<^verbatim>\<open>fetch_data\<close> catches every exception itself, so the retry decorator never sees one:
  the source is requested once, no sleep is performed, and the outcome is
  \<^verbatim>\<open>(api, None)\<close>. Evaluated here for a source with \<^verbatim>\<open>retry_attempts = 3\<close>.
\<close>

theorem fetch_data_always_failing_single_attempt:
  "retry_attempts posts_api = 3 \<and>
   fetch_data always_fails posts_api = (Inr (Some (posts_api, JNull)), 1, [])"
  by (simp add: fetch_data_once fetch_data_body_def do_fetch_def handle_response_def
        always_fails_def posts_api_def)

text \<open>
  C4, as stated, fails: with a budget of three attempts, a first response of status 500
  ends the fetch; the second request, which would have succeeded, is never issued.
\<close>

theorem non_200_not_retried_counterexample:
  "retry_attempts posts_api = 3 \<and>
   error_then_ok (GET (url posts_api) (params posts_api) (headers posts_api) (timeout posts_api)) 0
     = Response 500 (Inr ''Internal Server Error'') (Inl JSONDecodeError) \<and>
   error_then_ok (GET (url posts_api) (params posts_api) (headers posts_api) (timeout posts_api)) 1
     = Response 200 (Inr ''[1]'') (Inr (JList [JInt 1])) \<and>
   fetch_data error_then_ok posts_api = (Inr (Some (posts_api, JNull)), 1, [])"
  by (simp add: fetch_data_once fetch_data_body_def do_fetch_def handle_response_def
        error_then_ok_def posts_api_def)

text \<open>
  C4, amended. When the request that a source of kind \<^verbatim>\<open>REST\<close> or \<^verbatim>\<open>GraphQL\<close> issues is
  answered with a status other than 200 and the body of the response can be read as
  text, the fetch ends at once: \<^verbatim>\<open>_do_fetch\<close> returns \<^verbatim>\<open>(api, None)\<close> without raising, so
  the fetch returns the absence outcome after that single request and without a sleep.
\<close>

theorem non_200_ends_fetch:
  assumes "(type api = ''REST'' \<and>
            session (GET (url api) (params api) (headers api) (timeout api)) 0
              = Response status (Inr body) decoded) \<or>
           (type api = ''GraphQL'' \<and>
            session (POST (url api)
               (JObj [(''query'', case query api of None \<Rightarrow> JNull | Some q \<Rightarrow> JStr q)])
               (headers api) (timeout api)) 0
              = Response status (Inr body) decoded)"
    and "status \<noteq> 200"
  shows "do_fetch session api 0 = (Inr (Some (api, JNull)), 1) \<and>
         fetch_data session api = (Inr (Some (api, JNull)), 1, [])"
proof -
  have d: "do_fetch session api 0 = (Inr (Some (api, JNull)), 1)"
    using assms by (auto simp: do_fetch_def handle_response_def)
  then show ?thesis
    by (simp add: fetch_data_once fetch_data_body_def)
qed

theorem non_200_ends_fetch_witness:
  "type posts_api = ''REST'' \<and>
   error_then_ok (GET (url posts_api) (params posts_api) (headers posts_api) (timeout posts_api)) 0
     = Response 500 (Inr ''Internal Server Error'') (Inl JSONDecodeError) \<and>
   do_fetch error_then_ok posts_api 0 = (Inr (Some (posts_api, JNull)), 1) \<and>
   fetch_data error_then_ok posts_api = (Inr (Some (posts_api, JNull)), 1, [])"
proof -
  have h: "(type posts_api = ''REST'' \<and>
            error_then_ok (GET (url posts_api) (params posts_api) (headers posts_api)
               (timeout posts_api)) 0
              = Response 500 (Inr ''Internal Server Error'') (Inl JSONDecodeError)) \<or>
           (type posts_api = ''GraphQL'' \<and>
            error_then_ok (POST (url posts_api)
               (JObj [(''query'', case query posts_api of None \<Rightarrow> JNull | Some q \<Rightarrow> JStr q)])
               (headers posts_api) (timeout posts_api)) 0
              = Response 500 (Inr ''Internal Server Error'') (Inl JSONDecodeError))"
    by (simp add: posts_api_def error_then_ok_def)
  have n: "(500::int) \<noteq> 200" by simp
  show ?thesis
    using h non_200_ends_fetch [where api = posts_api and session = error_then_ok and status = 500
             and body = "''Internal Server Error''" and decoded = "Inl JSONDecodeError", OF h n]
    by (simp add: posts_api_def error_then_ok_def)
qed

subsection \<open>Normalizing\<close>

text \<open>
  C6. For a source of kind \<^verbatim>\<open>GraphQL\<close>, the payload
  \<^verbatim>\<open>{"data": {"countries": [{"name": "X"}]}}\<close> is normalized to \<^verbatim>\<open>[{"name": "X"}]\<close>, and
  \<^verbatim>\<open>{"data": {"characters": {"results": [{"name": "rick"}]}}}\<close> to \<^verbatim>\<open>[{"name": "rick"}]\<close>.
\<close>

theorem graphql_unwrap_examples:
  assumes "type api = ''GraphQL''"
  shows "transform_data
           (JObj [(''data'', JObj [(''countries'', JList [JObj [(''name'', JStr ''X'')]])])]) api
         = [[(''name'', JStr ''X'')]] \<and>
         transform_data
           (JObj [(''data'', JObj [(''characters'',
              JObj [(''results'', JList [JObj [(''name'', JStr ''rick'')]])])])]) api
         = [[(''name'', JStr ''rick'')]]"
  using assms
  by (simp add: transform_data_def transform_try_def unwrap_graphql_def bind_exn_def
        json_normalize_def normalise_json_ordered_def dict_merge_def DataFrame_def
        union_keys_def add_key_def where_notnull_def to_dict_records_def Let_def
        cell_of_def seen_nothing_def is_float64_def)

theorem graphql_unwrap_examples_witness:
  "type countries_api = ''GraphQL'' \<and>
   transform_data
     (JObj [(''data'', JObj [(''countries'', JList [JObj [(''name'', JStr ''X'')]])])])
     countries_api
   = [[(''name'', JStr ''X'')]] \<and>
   transform_data
     (JObj [(''data'', JObj [(''characters'',
        JObj [(''results'', JList [JObj [(''name'', JStr ''rick'')]])])])]) countries_api
   = [[(''name'', JStr ''rick'')]]"
proof -
  have t: "type countries_api = ''GraphQL''"
    by (simp add: countries_api_def)
  show ?thesis
    using t graphql_unwrap_examples [OF t] by simp
qed
























end
